theory Spec2Isabelle
  imports Main
begin

section \<open>JavaScript values\<close>

text \<open>
  The server is untyped JavaScript: what an upstream answers is whatever \<open>JSON.parse\<close>
  produced. Values are therefore modelled dynamically. Strings are byte strings (UTF-8);
  numbers are mathematical integers, which is what the program's numbers are up to
  \<open>2^53\<close> (JSON fractions are not modelled). An object is its list of own properties;
  a property read finds the first binding of the name.
\<close>

datatype jsval =
    Undefined
  | Null
  | Bool bool
  | Num int
  | Str string
  | Arr "jsval list"
  | Obj "(string \<times> jsval) list"

text \<open>What a \<open>throw\<close> carries: an \<open>Error\<close> made by the program or by the HTTP client,
  or a \<open>TypeError\<close> raised by the language itself. Both have a \<open>message\<close>.\<close>

datatype exn = Error string | TypeError string

fun message :: "exn \<Rightarrow> string" where
  "message (Error m) = m"
| "message (TypeError m) = m"

text \<open>\<open>!v\<close> is \<open>\<not> truthy v\<close>.\<close>

fun truthy :: "jsval \<Rightarrow> bool" where
  "truthy Undefined = False"
| "truthy Null = False"
| "truthy (Bool b) = b"
| "truthy (Num n) = (n \<noteq> 0)"
| "truthy (Str s) = (s \<noteq> [])"
| "truthy (Arr xs) = True"
| "truthy (Obj kvs) = True"

definition cannot_read :: "string \<Rightarrow> string \<Rightarrow> exn" where
  "cannot_read what p =
     TypeError (''Cannot read properties of '' @ what @ '' (reading '' @ [CHR 0x27] @ p @ [CHR 0x27] @ '')'')"

text \<open>
  The property read \<open>v.p\<close>, for the names this program reads (\<open>data\<close>, \<open>length\<close>,
  \<open>id\<close>, \<open>access_token\<close>, \<open>username\<close>, \<open>profile\<close>, \<open>posts\<close> and the like): of these only
  \<open>length\<close>, on strings and arrays, is not an own property. Reading a property of
  \<open>undefined\<close> or \<open>null\<close> throws.
\<close>

fun get_prop :: "jsval \<Rightarrow> string \<Rightarrow> exn + jsval" where
  "get_prop Undefined p = Inl (cannot_read ''undefined'' p)"
| "get_prop Null p = Inl (cannot_read ''null'' p)"
| "get_prop (Obj kvs) p = Inr (case map_of kvs p of None \<Rightarrow> Undefined | Some v \<Rightarrow> v)"
| "get_prop (Arr xs) p = Inr (if p = ''length'' then Num (int (length xs)) else Undefined)"
| "get_prop (Str s) p = Inr (if p = ''length'' then Num (int (length s)) else Undefined)"
| "get_prop (Bool b) p = Inr Undefined"
| "get_prop (Num n) p = Inr Undefined"

text \<open>The indexed read \<open>v[0]\<close>.\<close>

fun get_index0 :: "jsval \<Rightarrow> exn + jsval" where
  "get_index0 Undefined = Inl (cannot_read ''undefined'' ''0'')"
| "get_index0 Null = Inl (cannot_read ''null'' ''0'')"
| "get_index0 (Arr xs) = Inr (case xs of [] \<Rightarrow> Undefined | x # _ \<Rightarrow> x)"
| "get_index0 (Str s) = Inr (case s of [] \<Rightarrow> Undefined | c # _ \<Rightarrow> Str [c])"
| "get_index0 (Obj kvs) = Inr (case map_of kvs ''0'' of None \<Rightarrow> Undefined | Some v \<Rightarrow> v)"
| "get_index0 (Bool b) = Inr Undefined"
| "get_index0 (Num n) = Inr Undefined"

subsection \<open>\<open>String.prototype.toLowerCase\<close>\<close>

text \<open>
  The method belongs to the engine, not to the repository: it lower-cases by the Unicode
  case mapping, whose tables are not in the source. Every operation below that calls it
  takes it as a parameter \<open>lower\<close>, and what is proved of these operations holds for
  whatever function the engine supplies.

  What the language fixes without the tables is its effect on a string of ASCII
  characters: \<open>A\<close>..\<open>Z\<close> become \<open>a\<close>..\<open>z\<close> and every other character stays
  (\<open>lowers_ascii\<close>). \<open>ascii_lower\<close> is that function; it stands for the engine's where a
  handler is evaluated on ASCII strings.
\<close>

definition ascii_lower_char :: "char \<Rightarrow> char" where
  "ascii_lower_char c =
     (let n = (of_char c :: nat) in if 65 \<le> n \<and> n \<le> 90 then char_of (n + 32) else c)"

definition ascii_lower :: "string \<Rightarrow> string" where
  "ascii_lower s = map ascii_lower_char s"

definition is_ascii :: "string \<Rightarrow> bool" where
  "is_ascii s = list_all (\<lambda>c. (of_char c :: nat) < 128) s"

definition lowers_ascii :: "(string \<Rightarrow> string) \<Rightarrow> bool" where
  "lowers_ascii lower = (\<forall>s. is_ascii s \<longrightarrow> lower s = ascii_lower s)"

text \<open>The method call \<open>v.toLowerCase()\<close> on a dynamic value: only a string has the method.\<close>

fun call_toLowerCase :: "(string \<Rightarrow> string) \<Rightarrow> jsval \<Rightarrow> exn + string" where
  "call_toLowerCase lower (Str s) = Inr (lower s)"
| "call_toLowerCase lower Undefined = Inl (cannot_read ''undefined'' ''toLowerCase'')"
| "call_toLowerCase lower Null = Inl (cannot_read ''null'' ''toLowerCase'')"
| "call_toLowerCase lower v =
     Inl (TypeError ''accountInfo.profile.username.toLowerCase is not a function'')"

subsection \<open>\<open>parseInt\<close>\<close>

text \<open>
  \<open>parseInt(string)\<close> with no radix, after ECMAScript: skip leading white space, read an
  optional sign, switch to radix 16 after \<open>0x\<close> or \<open>0X\<close>, read the longest run of digits of
  the radix; no digit gives \<open>NaN\<close> (here \<open>None\<close>). White space is the white space
  and line terminators of the language, in their UTF-8 encoding.
\<close>

definition starts_with :: "nat list \<Rightarrow> string \<Rightarrow> bool" where
  "starts_with p s = (take (length p) (map of_char s) = p)"

definition ws_len :: "string \<Rightarrow> nat" where
  "ws_len s =
     (case s of [] \<Rightarrow> 0
      | c # cs \<Rightarrow>
        (let n = (of_char c :: nat) in
         if n = 0x20 \<or> (0x09 \<le> n \<and> n \<le> 0x0D) then 1
         else if starts_with [0xC2, 0xA0] s then 2
         else if starts_with [0xE1, 0x9A, 0x80] s then 3
         else if starts_with [0xE2, 0x80] s \<and> 3 \<le> length s \<and>
                 (let m = (of_char (s ! 2) :: nat) in
                    (0x80 \<le> m \<and> m \<le> 0x8A) \<or> m = 0xA8 \<or> m = 0xA9 \<or> m = 0xAF) then 3
         else if starts_with [0xE2, 0x81, 0x9F] s then 3
         else if starts_with [0xE3, 0x80, 0x80] s then 3
         else if starts_with [0xEF, 0xBB, 0xBF] s then 3
         else 0))"

fun strip_ws :: "string \<Rightarrow> string" where
  "strip_ws [] = []"
| "strip_ws (c # cs) =
     (if ws_len (c # cs) = 0 then c # cs else strip_ws (drop (ws_len (c # cs) - 1) cs))"

definition digit_val :: "char \<Rightarrow> nat option" where
  "digit_val c =
     (let n = (of_char c :: nat) in
      if 48 \<le> n \<and> n \<le> 57 then Some (n - 48)
      else if 97 \<le> n \<and> n \<le> 122 then Some (n - 87)
      else if 65 \<le> n \<and> n \<le> 90 then Some (n - 55)
      else None)"

definition radix_digit :: "nat \<Rightarrow> char \<Rightarrow> nat option" where
  "radix_digit R c = (case digit_val c of None \<Rightarrow> None | Some d \<Rightarrow> if d < R then Some d else None)"

fun take_digits :: "nat \<Rightarrow> string \<Rightarrow> nat list" where
  "take_digits R [] = []"
| "take_digits R (c # cs) = (case radix_digit R c of None \<Rightarrow> [] | Some d \<Rightarrow> d # take_digits R cs)"

definition digits_value :: "nat \<Rightarrow> nat list \<Rightarrow> nat" where
  "digits_value R ds = foldl (\<lambda>a d. a * R + d) 0 ds"

definition parseInt :: "string \<Rightarrow> int option" where
  "parseInt str =
     (let s = strip_ws str;
          neg = (take 1 s = ''-'');
          s1 = (if take 1 s = ''+'' \<or> take 1 s = ''-'' then drop 1 s else s);
          hex = (take 2 s1 = ''0x'' \<or> take 2 s1 = ''0X'');
          R = (if hex then 16 else 10);
          s2 = (if hex then drop 2 s1 else s1);
          ds = take_digits R s2
      in if ds = [] then None
         else Some ((if neg then - 1 else 1) * int (digits_value R ds)))"

text \<open>A decimal digit, \<open>0\<close> to \<open>9\<close>.\<close>

definition decimal_digit :: "char \<Rightarrow> bool" where
  "decimal_digit c = (let n = (of_char c :: nat) in 48 \<le> n \<and> n \<le> 57)"

text \<open>A query parameter is absent or a string (the array and object forms of the query
  parser are not modelled). An absent one reads as \<open>undefined\<close>, whose text, in a template
  literal or as the argument of \<open>parseInt\<close>, is the string \<open>undefined\<close>.\<close>

definition query_text :: "string option \<Rightarrow> string" where
  "query_text q = (case q of None \<Rightarrow> ''undefined'' | Some s \<Rightarrow> s)"

definition parseInt_query :: "string option \<Rightarrow> int option" where
  "parseInt_query q = parseInt (query_text q)"

text \<open>\<open>parseInt(q) || d\<close>: \<open>NaN\<close> and \<open>0\<close> are falsy.\<close>

definition parseInt_or :: "string option \<Rightarrow> int \<Rightarrow> int" where
  "parseInt_or q d = (case parseInt_query q of None \<Rightarrow> d | Some n \<Rightarrow> if n = 0 then d else n)"

text \<open>\<open>!q\<close> for a query parameter: absent or the empty string.\<close>

definition falsy_param :: "string option \<Rightarrow> bool" where
  "falsy_param q = (case q of None \<Rightarrow> True | Some s \<Rightarrow> s = [])"

subsection \<open>\<open>encodeURIComponent\<close>\<close>

text \<open>Every byte of the UTF-8 text is kept if it is a letter, a digit or one of
  \<open>- _ . ! ~ * ' ( )\<close>, and written \<open>%XX\<close> in upper-case hexadecimal otherwise.\<close>

definition uri_unreserved :: "char \<Rightarrow> bool" where
  "uri_unreserved c =
     (let n = (of_char c :: nat) in
      (48 \<le> n \<and> n \<le> 57) \<or> (65 \<le> n \<and> n \<le> 90) \<or> (97 \<le> n \<and> n \<le> 122) \<or>
      c \<in> set ''-_.!~*()'' \<or> n = 0x27)"

definition hex_digit :: "nat \<Rightarrow> char" where
  "hex_digit n = ''0123456789ABCDEF'' ! n"

definition percent_encode :: "char \<Rightarrow> string" where
  "percent_encode c =
     [CHR ''%'', hex_digit ((of_char c :: nat) div 16), hex_digit ((of_char c :: nat) mod 16)]"

definition encodeURIComponent :: "string \<Rightarrow> string" where
  "encodeURIComponent s = concat (map (\<lambda>c. if uri_unreserved c then [c] else percent_encode c) s)"

section \<open>The HTTP client and the responses\<close>

text \<open>
  Every outbound call of the program is an \<open>axios.get\<close> of a URL built from a template
  literal. A request records which template it is and the values interpolated into it, in
  the order they appear:
  \<^item> \<open>MeAccounts t\<close>: \<open>https://graph.facebook.com/me/accounts?access_token=t\<close>
  \<^item> \<open>PageIgAccount p t\<close>:
    \<open>https://graph.facebook.com/p?fields=instagram_business_account&access_token=t\<close>
  \<^item> \<open>IgProfile a t\<close>: \<open>https://graph.instagram.com/a?fields=id,username,name,\<close>
    \<open>profile_picture_url,followers_count,follows_count,media_count&access_token=t\<close>
  \<^item> \<open>IgMedia a t l\<close>: \<open>https://graph.instagram.com/a/media?fields=id,caption,media_url,\<close>
    \<open>media_type,timestamp,like_count,comments_count,permalink&limit=l&access_token=t\<close>
  \<^item> \<open>OAuthAccessToken i r s c\<close>: \<open>https://graph.facebook.com/v18.0/oauth/access_token\<close>
    \<open>?client_id=i&redirect_uri=encodeURIComponent(r)&client_secret=s&code=c\<close>
\<close>

datatype request =
    MeAccounts string
  | PageIgAccount jsval jsval
  | IgProfile jsval jsval
  | IgMedia jsval jsval int
  | OAuthAccessToken jsval jsval jsval jsval

text \<open>The upstream is the transport: it answers a request with the parsed body (the
  \<open>data\<close> of the axios response) or makes \<open>axios.get\<close> throw.\<close>

type_synonym upstream = "request \<Rightarrow> exn + jsval"

text \<open>A computation may throw, and it extends the list of the calls made so far (of type
  \<open>'r\<close>: the requests sent, or the calls of the mock data source of the first variant).\<close>

type_synonym ('r, 'a) io = "'r list \<Rightarrow> (exn + 'a) \<times> 'r list"

definition io_return :: "'a \<Rightarrow> ('r, 'a) io" where
  "io_return x = (\<lambda>tr. (Inr x, tr))"

definition io_throw :: "exn \<Rightarrow> ('r, 'a) io" where
  "io_throw e = (\<lambda>tr. (Inl e, tr))"

definition io_lift :: "exn + 'a \<Rightarrow> ('r, 'a) io" where
  "io_lift r = (\<lambda>tr. (r, tr))"

definition io_bind :: "('r, 'a) io \<Rightarrow> ('a \<Rightarrow> ('r, 'b) io) \<Rightarrow> ('r, 'b) io" where
  "io_bind m f = (\<lambda>tr. case m tr of (Inl e, tr') \<Rightarrow> (Inl e, tr') | (Inr x, tr') \<Rightarrow> f x tr')"

definition io_catch :: "('r, 'a) io \<Rightarrow> (exn \<Rightarrow> ('r, 'a) io) \<Rightarrow> ('r, 'a) io" where
  "io_catch m h = (\<lambda>tr. case m tr of (Inl e, tr') \<Rightarrow> h e tr' | (Inr x, tr') \<Rightarrow> (Inr x, tr'))"

definition axios_get :: "upstream \<Rightarrow> request \<Rightarrow> (request, jsval) io" where
  "axios_get up r = (\<lambda>tr. (up r, tr @ [r]))"

record http_response =
  status :: nat
  body :: jsval

text \<open>\<open>res.status(n).json(b)\<close>; a bare \<open>res.json(b)\<close> answers 200.\<close>

definition json_response :: "nat \<Rightarrow> jsval \<Rightarrow> http_response" where
  "json_response n b = \<lparr>status = n, body = b\<rparr>"

definition failure :: "string \<Rightarrow> jsval" where
  "failure msg = Obj [(''success'', Bool False), (''error'', Str msg)]"

text \<open>A handler runs from an empty list of calls. Each handler below catches whatever it
  throws, so the second case never arises; it is written as the answer of the
  application's error-handling middleware.\<close>

definition respond :: "('r, http_response) io \<Rightarrow> http_response \<times> 'r list" where
  "respond m =
     (case m [] of
        (Inr r, tr) \<Rightarrow> (r, tr)
      | (Inl e, tr) \<Rightarrow> (json_response 500 (failure ''Internal server error''), tr))"

section \<open>\<open>InstagramGraphAPI\<close>\<close>

record account_info =
  accountId :: jsval
  accessToken :: jsval
  profile :: jsval

definition getBusinessAccountInfo :: "upstream \<Rightarrow> string \<Rightarrow> (request, account_info) io" where
  "getBusinessAccountInfo up token =
     io_catch
       (io_bind (axios_get up (MeAccounts token)) (\<lambda>pagesData.
        io_bind (io_lift (get_prop pagesData ''data'')) (\<lambda>pages.
        io_bind (if \<not> truthy pages then io_throw (Error ''No Facebook pages found'')
                 else io_bind (io_lift (get_prop pages ''length'')) (\<lambda>len.
                      if len = Num 0 then io_throw (Error ''No Facebook pages found'')
                      else io_return ())) (\<lambda>_.
        io_bind (io_lift (get_index0 pages)) (\<lambda>page.
        io_bind (io_lift (get_prop page ''id'')) (\<lambda>pageId.
        io_bind (io_lift (get_prop page ''access_token'')) (\<lambda>pageToken.
        io_bind (axios_get up (PageIgAccount pageId pageToken)) (\<lambda>igData.
        io_bind (io_lift (get_prop igData ''instagram_business_account'')) (\<lambda>linked.
        if \<not> truthy linked then io_throw (Error ''No Instagram business account connected'')
        else
        io_bind (io_lift (get_prop linked ''id'')) (\<lambda>igAccountId.
        io_bind (axios_get up (IgProfile igAccountId pageToken)) (\<lambda>accountData.
        io_return \<lparr>accountId = igAccountId, accessToken = pageToken,
                    profile = accountData\<rparr>)))))))))))
       (\<lambda>error. io_throw (Error (''Failed to get business account info: '' @ message error)))"

definition getBusinessAccountPosts ::
  "upstream \<Rightarrow> jsval \<Rightarrow> jsval \<Rightarrow> int \<Rightarrow> (request, jsval) io" where
  "getBusinessAccountPosts up account token lim =
     io_catch
       (io_bind (axios_get up (IgMedia account token lim)) (\<lambda>mediaData.
        io_lift (get_prop mediaData ''data'')))
       (\<lambda>error. io_throw (Error (''Failed to get business posts: '' @ message error)))"

section \<open>The routes\<close>

subsection \<open>\<open>GET /api/instagram/business/:username\<close>\<close>

record business_req =
  param_username :: string
  query_access_token :: "string option"
  query_limit :: "string option"

definition business_handler ::
  "(string \<Rightarrow> string) \<Rightarrow> upstream \<Rightarrow> business_req \<Rightarrow> http_response \<times> request list" where
  "business_handler lower up req =
     (let name = param_username req;
          access_token = query_access_token req;
          lim = parseInt_or (query_limit req) 25
      in respond
        (io_catch
          (if falsy_param access_token
           then io_return (json_response 400
                  (failure ''Access token is required for business accounts''))
           else
           io_bind (getBusinessAccountInfo up (query_text access_token)) (\<lambda>accountInfo.
           io_bind (io_lift (get_prop (profile accountInfo) ''username'')) (\<lambda>resolved.
           io_bind (io_lift (call_toLowerCase lower resolved)) (\<lambda>lowered.
           if lowered \<noteq> lower name
           then io_return (json_response 404
                  (failure ''Username does not match the authenticated business account''))
           else
           io_bind (getBusinessAccountPosts up (accountId accountInfo)
                      (accessToken accountInfo) lim) (\<lambda>posts.
           io_return (json_response 200
             (Obj [(''success'', Bool True),
                   (''username'', resolved),
                   (''account_type'', Str ''business''),
                   (''profile'', profile accountInfo),
                   (''posts'', posts)])))))))
          (\<lambda>error. io_return (json_response 500 (failure (message error))))))"

subsection \<open>\<open>GET /api/instagram/public/:username\<close>\<close>

record public_req =
  public_username :: string
  public_limit :: "string option"

definition public_handler :: "upstream \<Rightarrow> public_req \<Rightarrow> http_response \<times> request list" where
  "public_handler up req =
     (let name = public_username req;
          lim = parseInt_or (public_limit req) 12
      in respond
        (io_catch
          (io_return (json_response 501
             (Obj [(''success'', Bool False),
                   (''error'', Str ''Public profile scraping is no longer reliable due to Instagram's restrictions''),
                   (''recommendation'', Str ''Use Instagram Graph API with business accounts''),
                   (''alternatives'',
                      Arr [Str ''Convert to Instagram Business account'',
                           Str ''Use Instagram Graph API'',
                           Str ''Use third-party services like RapidAPI''])])))
          (\<lambda>error. io_return (json_response 500 (failure (message error))))))"

subsection \<open>\<open>GET /api/auth/instagram\<close>\<close>

definition auth_url :: "string \<Rightarrow> string \<Rightarrow> string" where
  "auth_url app_id redirect_uri =
     ''https://www.facebook.com/v18.0/dialog/oauth?client_id='' @ app_id @
     ''&redirect_uri='' @ encodeURIComponent redirect_uri @
     ''&scope=instagram_basic,pages_show_list,pages_read_engagement&response_type=code''"

definition auth_handler :: "string option \<Rightarrow> string option \<Rightarrow> http_response" where
  "auth_handler app_id redirect_uri =
     (if falsy_param app_id \<or> falsy_param redirect_uri
      then json_response 400 (failure ''app_id and redirect_uri are required'')
      else json_response 200
        (Obj [(''success'', Bool True),
              (''auth_url'', Str (auth_url (query_text app_id) (query_text redirect_uri))),
              (''instructions'',
                 Arr [Str ''1. Visit the auth_url to authorize your app'',
                      Str ''2. Copy the authorization code from the redirect'',
                      Str ''3. Exchange the code for an access token using /api/auth/token''])]))"

subsection \<open>\<open>POST /api/auth/token\<close>\<close>

text \<open>The request body is what the JSON body parser left in \<open>req.body\<close>. Destructuring it
  reads the four properties, and throws if the body is \<open>undefined\<close> or \<open>null\<close>.\<close>

definition token_handler :: "upstream \<Rightarrow> jsval \<Rightarrow> http_response \<times> request list" where
  "token_handler up req_body =
     respond
       (io_catch
         (io_bind (io_lift (get_prop req_body ''code'')) (\<lambda>code.
          io_bind (io_lift (get_prop req_body ''app_id'')) (\<lambda>app_id.
          io_bind (io_lift (get_prop req_body ''app_secret'')) (\<lambda>app_secret.
          io_bind (io_lift (get_prop req_body ''redirect_uri'')) (\<lambda>redirect_uri.
          if \<not> truthy code \<or> \<not> truthy app_id \<or> \<not> truthy app_secret \<or> \<not> truthy redirect_uri
          then io_return (json_response 400
                 (failure ''code, app_id, app_secret, and redirect_uri are required''))
          else
          io_bind (axios_get up (OAuthAccessToken app_id redirect_uri app_secret code)) (\<lambda>tokenData.
          io_bind (io_lift (get_prop tokenData ''access_token'')) (\<lambda>access_token.
          io_bind (io_lift (get_prop tokenData ''token_type'')) (\<lambda>token_type.
          io_bind (io_lift (get_prop tokenData ''expires_in'')) (\<lambda>expires_in.
          io_return (json_response 200
            (Obj [(''success'', Bool True),
                  (''access_token'', access_token),
                  (''token_type'', token_type),
                  (''expires_in'', expires_in)])))))))))))
         (\<lambda>error. io_return (json_response 500 (failure ''Failed to exchange code for token''))))"

section \<open>The mock variant: \<open>GET /api/instagram/:username\<close>\<close>

text \<open>The first variant of the server answers from a table of mock users. The table has
  one user; its captions are kept byte for byte.\<close>

definition johndoe :: jsval where
  "johndoe =
     Obj [(''profile'',
           Obj [(''username'', Str ''johndoe''), (''full_name'', Str ''John Doe''),
                (''profile_pic_url'', Str ''https://via.placeholder.com/150''),
                (''followers_count'', Num 1250), (''following_count'', Num 300),
                (''posts_count'', Num 45)]),
          (''posts'',
           Arr [Obj [(''id'', Str ''1''),
                     (''caption'', Str (''Beautiful sunset at the beach! '' @
                        [CHR 0xC3, CHR 0xB0, CHR 0xC5, CHR 0xB8, CHR 0xC5, CHR 0x92,
                         CHR 0xE2, CHR 0x80, CHR 0xA6])),
                     (''media_url'',
                      Str ''https://via.placeholder.com/400x400/FF6B6B/FFFFFF?text=Sunset''),
                     (''media_type'', Str ''image''),
                     (''timestamp'', Str ''2024-01-15T18:30:00Z''),
                     (''likes_count'', Num 124), (''comments_count'', Num 8)],
                Obj [(''id'', Str ''2''),
                     (''caption'', Str (''Coffee and coding session '' @
                        [CHR 0xC3, CHR 0xA2, CHR 0xCB, CHR 0x9C, CHR 0xE2, CHR 0x80, CHR 0xA2,
                         CHR 0xC3, CHR 0xAF, CHR 0xC2, CHR 0xB8, CHR 0xC3, CHR 0xB0, CHR 0xC5,
                         CHR 0xB8, CHR 0xE2, CHR 0x80, CHR 0x99, CHR 0xC2, CHR 0xBB])),
                     (''media_url'',
                      Str ''https://via.placeholder.com/400x400/4ECDC4/FFFFFF?text=Coffee''),
                     (''media_type'', Str ''image''),
                     (''timestamp'', Str ''2024-01-14T09:15:00Z''),
                     (''likes_count'', Num 89), (''comments_count'', Num 12)],
                Obj [(''id'', Str ''3''),
                     (''caption'', Str (''Weekend hiking adventure! '' @
                        [CHR 0xC3, CHR 0xB0, CHR 0xC5, CHR 0xB8, CHR 0xE2, CHR 0x80, CHR 0x9D,
                         CHR 0xC3, CHR 0xAF, CHR 0xC2, CHR 0xB8])),
                     (''media_url'',
                      Str ''https://via.placeholder.com/400x400/45B7D1/FFFFFF?text=Mountain''),
                     (''media_type'', Str ''image''),
                     (''timestamp'', Str ''2024-01-13T16:45:00Z''),
                     (''likes_count'', Num 156), (''comments_count'', Num 23)]])]"

text \<open>\<open>mockUserData[key]\<close>. The table is an object literal, so besides its own property
  \<open>johndoe\<close> it answers the names it inherits from \<open>Object.prototype\<close>, each with a function
  or an object that has neither \<open>profile\<close> nor \<open>posts\<close> (here an object with no property).\<close>

definition object_prototype_names :: "string list" where
  "object_prototype_names =
     [''constructor'', ''__proto__'', ''hasOwnProperty'', ''isPrototypeOf'',
      ''propertyIsEnumerable'', ''toString'', ''toLocaleString'', ''valueOf'',
      ''__defineGetter__'', ''__defineSetter__'', ''__lookupGetter__'', ''__lookupSetter__'']"

definition mockUserData :: "string \<Rightarrow> jsval" where
  "mockUserData key =
     (if key = ''johndoe'' then johndoe
      else if key \<in> set object_prototype_names then Obj []
      else Undefined)"

text \<open>\<open>v.slice(0, n)\<close>; a negative end counts from the end.\<close>

definition slice0 :: "'a list \<Rightarrow> int \<Rightarrow> 'a list" where
  "slice0 xs n = (if n < 0 then take (nat (int (length xs) + n)) xs else take (nat n) xs)"

fun call_slice0 :: "jsval \<Rightarrow> int \<Rightarrow> exn + jsval" where
  "call_slice0 (Arr xs) n = Inr (Arr (slice0 xs n))"
| "call_slice0 (Str s) n = Inr (Str (slice0 s n))"
| "call_slice0 Undefined n = Inl (cannot_read ''undefined'' ''slice'')"
| "call_slice0 Null n = Inl (cannot_read ''null'' ''slice'')"
| "call_slice0 v n = Inl (TypeError ''userData.posts.slice is not a function'')"

datatype fetch_call = FetchInstagramData string int

record mock_data =
  data_profile :: jsval
  data_posts :: jsval

definition fetchInstagramData ::
  "(string \<Rightarrow> string) \<Rightarrow> string \<Rightarrow> int \<Rightarrow> (fetch_call, mock_data) io" where
  "fetchInstagramData lower name lim =
     (\<lambda>tr.
        (let userData = mockUserData (lower name) in
         if \<not> truthy userData then io_throw (Error ''User not found'')
         else
         io_bind (io_lift (get_prop userData ''profile'')) (\<lambda>prof.
         io_bind (io_lift (get_prop userData ''posts'')) (\<lambda>posts.
         io_bind (io_lift (call_slice0 posts lim)) (\<lambda>sliced.
         io_return \<lparr>data_profile = prof, data_posts = sliced\<rparr>))))
        (tr @ [FetchInstagramData name lim]))"

text \<open>The test of \<open>/^[a-zA-Z0-9._]{1,30}$/\<close>: without the multiline flag, \<open>$\<close> is the end of
  the input, so the whole string is one to thirty characters of the class.\<close>

definition username_char :: "char \<Rightarrow> bool" where
  "username_char c =
     (let n = (of_char c :: nat) in
      (97 \<le> n \<and> n \<le> 122) \<or> (65 \<le> n \<and> n \<le> 90) \<or> (48 \<le> n \<and> n \<le> 57) \<or>
      c = CHR ''.'' \<or> c = CHR ''_'')"

definition username_regex_test :: "string \<Rightarrow> bool" where
  "username_regex_test s = (1 \<le> length s \<and> length s \<le> 30 \<and> list_all username_char s)"

record mock_req =
  mock_username :: string
  mock_limit :: "string option"

definition instagram_handler ::
  "(string \<Rightarrow> string) \<Rightarrow> mock_req \<Rightarrow> http_response \<times> fetch_call list" where
  "instagram_handler lower req =
     (let name = mock_username req;
          lim = parseInt_or (mock_limit req) 12
      in respond
        (io_catch
          (if name = [] \<or> \<not> username_regex_test name
           then io_return (json_response 400 (failure ''Invalid username format''))
           else if lim < 1 \<or> lim > 50
           then io_return (json_response 400 (failure ''Limit must be between 1 and 50''))
           else
           io_bind (fetchInstagramData lower name lim) (\<lambda>fetched.
           io_return (json_response 200
             (Obj [(''success'', Bool True),
                   (''username'', Str name),
                   (''profile'', data_profile fetched),
                   (''posts'', data_posts fetched)]))))
          (\<lambda>error.
             if message error = ''User not found''
             then io_return (json_response 404 (failure ''User not found''))
             else io_return (json_response 500 (failure ''Internal server error'')))))"

section \<open>A concrete upstream\<close>

text \<open>The credential \<open>tok1\<close> has one page \<open>p1\<close> with the page token \<open>pt1\<close>; the page is
  linked to the account \<open>ig1\<close>, whose username is \<open>acct\<close> and which has two posts. Every
  other request fails.\<close>

definition scenario_media :: "jsval list" where
  "scenario_media =
     [Obj [(''id'', Str ''m1''), (''caption'', Str ''first''),
           (''media_url'', Str ''https://cdn.example/m1.jpg''), (''media_type'', Str ''IMAGE''),
           (''timestamp'', Str ''2024-01-15T18:30:00+0000''), (''like_count'', Num 124),
           (''comments_count'', Num 8), (''permalink'', Str ''https://www.instagram.com/p/m1/'')],
      Obj [(''id'', Str ''m2''), (''caption'', Str ''second''),
           (''media_url'', Str ''https://cdn.example/m2.mp4''), (''media_type'', Str ''VIDEO''),
           (''timestamp'', Str ''2024-01-14T09:15:00+0000''), (''like_count'', Num 89),
           (''comments_count'', Num 12), (''permalink'', Str ''https://www.instagram.com/p/m2/'')]]"

definition scenario_profile :: jsval where
  "scenario_profile =
     Obj [(''id'', Str ''ig1''), (''username'', Str ''acct''), (''name'', Str ''Account''),
          (''profile_picture_url'', Str ''https://cdn.example/acct.jpg''),
          (''followers_count'', Num 1250), (''follows_count'', Num 300), (''media_count'', Num 2)]"

definition rejected :: "exn + jsval" where
  "rejected = Inl (Error ''Request failed with status code 400'')"

definition scenario_upstream :: upstream where
  "scenario_upstream r =
     (case r of
        MeAccounts t \<Rightarrow>
          if t = ''tok1''
          then Inr (Obj [(''data'', Arr [Obj [(''id'', Str ''p1''), (''access_token'', Str ''pt1'')],
                                         Obj [(''id'', Str ''p2''), (''access_token'', Str ''pt2'')]])])
          else rejected
      | PageIgAccount p t \<Rightarrow>
          if p = Str ''p1'' \<and> t = Str ''pt1''
          then Inr (Obj [(''instagram_business_account'', Obj [(''id'', Str ''ig1'')]),
                         (''id'', Str ''p1'')])
          else rejected
      | IgProfile a t \<Rightarrow>
          if a = Str ''ig1'' \<and> t = Str ''pt1'' then Inr scenario_profile else rejected
      | IgMedia a t l \<Rightarrow>
          if a = Str ''ig1'' \<and> t = Str ''pt1''
          then Inr (Obj [(''data'', Arr (take (nat l) scenario_media))])
          else rejected
      | OAuthAccessToken i r s c \<Rightarrow> rejected)"

text \<open>A credential with no page: the list of pages is empty.\<close>

definition no_pages_upstream :: upstream where
  "no_pages_upstream r =
     (case r of MeAccounts t \<Rightarrow> Inr (Obj [(''data'', Arr [])]) | _ \<Rightarrow> rejected)"

definition scenario_info :: account_info where
  "scenario_info = \<lparr>accountId = Str ''ig1'', accessToken = Str ''pt1'', profile = scenario_profile\<rparr>"

definition scenario_trace :: "request list" where
  "scenario_trace =
     [MeAccounts ''tok1'', PageIgAccount (Str ''p1'') (Str ''pt1''),
      IgProfile (Str ''ig1'') (Str ''pt1'')]"

text \<open>A request of the business route made with the credential \<open>tok1\<close>.\<close>

definition scenario_req :: "string \<Rightarrow> string option \<Rightarrow> business_req" where
  "scenario_req name lim =
     \<lparr>param_username = name, query_access_token = Some ''tok1'', query_limit = lim\<rparr>"

section \<open>Facts about the built-in functions\<close>

text \<open>Skipping white space leaves a suffix of the string.\<close>

lemma strip_ws_suffix: "\<exists>n. strip_ws s = drop n s"
proof (induction s rule: strip_ws.induct)
  case 1
  show ?case by simp
next
  case (2 c cs)
  show ?case
  proof (cases "ws_len (c # cs) = 0")
    case True
    then have "strip_ws (c # cs) = drop 0 (c # cs)" by simp
    then show ?thesis by blast
  next
    case False
    then obtain k where k: "ws_len (c # cs) = Suc k"
      by (cases "ws_len (c # cs)") auto
    with 2 obtain n where "strip_ws (drop k cs) = drop n (drop k cs)"
      by auto
    with k have "strip_ws (c # cs) = drop (Suc (n + k)) (c # cs)"
      by simp
    then show ?thesis by blast
  qed
qed

lemma set_strip_ws: "set (strip_ws s) \<subseteq> set s"
proof -
  obtain n where "strip_ws s = drop n s"
    using strip_ws_suffix by blast
  then show ?thesis
    by (simp add: set_drop_subset)
qed

lemma take_digits_no_digit:
  "\<forall>c\<in>set s. \<not> decimal_digit c \<Longrightarrow> take_digits 10 s = []"
  by (cases s) (auto simp add: radix_digit_def digit_val_def decimal_digit_def Let_def)

text \<open>A string with no decimal digit in it is not numeric: \<open>parseInt\<close> gives \<open>NaN\<close>.\<close>

lemma parseInt_no_digit:
  assumes "\<forall>c\<in>set s. \<not> decimal_digit c"
  shows "parseInt s = None"
proof -
  define t where "t = strip_ws s"
  define t1 where "t1 = (if take 1 t = ''+'' \<or> take 1 t = ''-'' then drop 1 t else t)"
  have "set t \<subseteq> set s"
    unfolding t_def by (rule set_strip_ws)
  moreover have "set t1 \<subseteq> set t"
    unfolding t1_def by (auto dest: in_set_dropD)
  ultimately have nodigit: "\<forall>c\<in>set t1. \<not> decimal_digit c"
    using assms by blast
  have zero: "decimal_digit (CHR ''0'')"
    by (simp add: decimal_digit_def)
  have nothex: "take 2 t1 \<noteq> ''0x'' \<and> take 2 t1 \<noteq> ''0X''"
  proof (cases t1)
    case Nil
    then show ?thesis by simp
  next
    case (Cons c cs)
    with nodigit zero have "c \<noteq> CHR ''0''" by auto
    with Cons show ?thesis by (cases cs) auto
  qed
  have "take_digits 10 t1 = []"
    using nodigit by (rule take_digits_no_digit)
  with nothex show ?thesis
    unfolding parseInt_def Let_def t_def [symmetric] t1_def [symmetric]
    by simp
qed

text \<open>What \<open>encodeURIComponent\<close> returns holds unreserved characters and \<open>%\<close> only: no
  \<open>&\<close>, \<open>=\<close>, \<open>?\<close> or \<open>#\<close> of the argument survives unescaped.\<close>

lemma hex_digits_all_unreserved: "list_all (\<lambda>n. uri_unreserved (hex_digit n)) [0..<16]"
  by code_simp

lemma hex_digit_unreserved: "n < 16 \<Longrightarrow> uri_unreserved (hex_digit n)"
  using hex_digits_all_unreserved by (simp add: list_all_iff)

lemma encodeURIComponent_chars:
  assumes "c \<in> set (encodeURIComponent s)"
  shows "uri_unreserved c \<or> c = CHR ''%''"
proof -
  from assms obtain x where "x \<in> set s"
    and c: "c \<in> set (if uri_unreserved x then [x] else percent_encode x)"
    by (auto simp add: encodeURIComponent_def)
  have "(of_char x :: nat) < 256"
    by simp
  moreover have "k div 16 < 16" if "k < 256" for k :: nat
    using that by arith
  ultimately have "(of_char x :: nat) div 16 < 16" "(of_char x :: nat) mod 16 < 16"
    by simp_all
  with c show ?thesis
    by (auto simp add: percent_encode_def hex_digit_unreserved split: if_splits)
qed

section \<open>How the operations unfold\<close>

lemma getBusinessAccountPosts_eq:
  "getBusinessAccountPosts up a t l tr =
     (case up (IgMedia a t l) of
        Inl e \<Rightarrow> Inl (Error (''Failed to get business posts: '' @ message e))
      | Inr d \<Rightarrow> (case get_prop d ''data'' of
                   Inl e \<Rightarrow> Inl (Error (''Failed to get business posts: '' @ message e))
                 | Inr v \<Rightarrow> Inr v),
      tr @ [IgMedia a t l])"
  by (simp add: getBusinessAccountPosts_def io_catch_def io_bind_def axios_get_def io_lift_def
      io_throw_def split: sum.splits)

lemma info_no_pages:
  assumes "up (MeAccounts tok) = Inr d" and "get_prop d ''data'' = Inr pages"
    and "pages = Arr [] \<or> \<not> truthy pages"
  shows "getBusinessAccountInfo up tok tr =
           (Inl (Error ''Failed to get business account info: No Facebook pages found''),
            tr @ [MeAccounts tok])"
  using assms
  by (auto simp add: getBusinessAccountInfo_def io_catch_def io_bind_def axios_get_def io_lift_def
      io_throw_def io_return_def)

text \<open>A resolution that succeeds went through every step, and sent exactly three requests.\<close>

lemma info_success:
  assumes "getBusinessAccountInfo up tok tr = (Inr info, tr')"
  shows "\<exists>d pages page pid pt igd linked ig prof.
           up (MeAccounts tok) = Inr d \<and> get_prop d ''data'' = Inr pages \<and> truthy pages \<and>
           get_prop pages ''length'' \<noteq> Inr (Num 0) \<and>
           get_index0 pages = Inr page \<and> get_prop page ''id'' = Inr pid \<and>
           get_prop page ''access_token'' = Inr pt \<and>
           up (PageIgAccount pid pt) = Inr igd \<and>
           get_prop igd ''instagram_business_account'' = Inr linked \<and> truthy linked \<and>
           get_prop linked ''id'' = Inr ig \<and> up (IgProfile ig pt) = Inr prof \<and>
           info = \<lparr>accountId = ig, accessToken = pt, profile = prof\<rparr> \<and>
           tr' = tr @ [MeAccounts tok, PageIgAccount pid pt, IgProfile ig pt]"
  using assms
  by (auto simp add: getBusinessAccountInfo_def io_catch_def io_bind_def axios_get_def io_lift_def
      io_throw_def io_return_def split: sum.splits prod.splits if_splits)

lemma info_trace_no_media:
  "getBusinessAccountInfo up tok tr = (r, tr') \<Longrightarrow> IgMedia a t l \<in> set tr' \<Longrightarrow> IgMedia a t l \<in> set tr"
  by (auto simp add: getBusinessAccountInfo_def io_catch_def io_bind_def axios_get_def io_lift_def
      io_throw_def io_return_def split: sum.splits prod.splits if_splits)

lemma business_handler_no_token:
  "falsy_param (query_access_token req) \<Longrightarrow>
   business_handler lower up req =
     (json_response 400 (failure ''Access token is required for business accounts''), [])"
  by (simp add: business_handler_def Let_def respond_def io_catch_def io_return_def)

lemma business_handler_unresolved:
  assumes "\<not> falsy_param (query_access_token req)"
    and "getBusinessAccountInfo up (query_text (query_access_token req)) [] = (Inl e, tr)"
  shows "business_handler lower up req = (json_response 500 (failure (message e)), tr)"
  using assms
  by (simp add: business_handler_def Let_def respond_def io_catch_def io_bind_def io_return_def)

lemma business_handler_resolved:
  assumes "\<not> falsy_param (query_access_token req)"
    and "getBusinessAccountInfo up (query_text (query_access_token req)) [] = (Inr info, tr)"
  shows "business_handler lower up req =
    (case get_prop (profile info) ''username'' of
       Inl e \<Rightarrow> (json_response 500 (failure (message e)), tr)
     | Inr resolved \<Rightarrow>
        (case call_toLowerCase lower resolved of
           Inl e \<Rightarrow> (json_response 500 (failure (message e)), tr)
         | Inr lowered \<Rightarrow>
            if lowered \<noteq> lower (param_username req)
            then (json_response 404
                    (failure ''Username does not match the authenticated business account''), tr)
            else
              (case getBusinessAccountPosts up (accountId info) (accessToken info)
                      (parseInt_or (query_limit req) 25) tr of
                 (Inl e, tr') \<Rightarrow> (json_response 500 (failure (message e)), tr')
               | (Inr posts, tr') \<Rightarrow>
                   (json_response 200
                      (Obj [(''success'', Bool True),
                            (''username'', resolved),
                            (''account_type'', Str ''business''),
                            (''profile'', profile info),
                            (''posts'', posts)]), tr'))))"
  using assms
  by (simp add: business_handler_def Let_def respond_def io_catch_def io_bind_def io_return_def
      io_lift_def split: sum.splits prod.splits)

lemma business_handler_username:
  assumes "\<not> falsy_param (query_access_token req)"
    and "getBusinessAccountInfo up (query_text (query_access_token req)) [] = (Inr info, tr)"
    and "get_prop (profile info) ''username'' = Inr (Str resolved)"
  shows "business_handler lower up req =
     (if lower resolved \<noteq> lower (param_username req)
      then (json_response 404
              (failure ''Username does not match the authenticated business account''), tr)
      else
        (case getBusinessAccountPosts up (accountId info) (accessToken info)
                (parseInt_or (query_limit req) 25) tr of
           (Inl e, tr') \<Rightarrow> (json_response 500 (failure (message e)), tr')
         | (Inr posts, tr') \<Rightarrow>
             (json_response 200
                (Obj [(''success'', Bool True),
                      (''username'', Str resolved),
                      (''account_type'', Str ''business''),
                      (''profile'', profile info),
                      (''posts'', posts)]), tr')))"
  apply (subst business_handler_resolved [OF assms(1,2)])
  apply (simp only: assms(3) sum.case call_toLowerCase.simps)
  done

text \<open>A post-listing request of the handler carries the limit it parsed, and the account
  and the token of a successful resolution.\<close>

lemma business_handler_media:
  assumes "IgMedia a t l \<in> set (snd (business_handler lower up req))"
  shows "l = parseInt_or (query_limit req) 25 \<and>
         (\<exists>info tr. getBusinessAccountInfo up (query_text (query_access_token req)) [] = (Inr info, tr) \<and>
            a = accountId info \<and> t = accessToken info)"
proof (cases "falsy_param (query_access_token req)")
  case True
  with assms show ?thesis
    by (simp add: business_handler_no_token)
next
  case False
  obtain r tr where res: "getBusinessAccountInfo up (query_text (query_access_token req)) [] = (r, tr)"
    by (cases "getBusinessAccountInfo up (query_text (query_access_token req)) []") auto
  have nomedia: "IgMedia a t l \<notin> set tr"
    using info_trace_no_media [OF res] by auto
  show ?thesis
  proof (cases r)
    case (Inl e)
    with assms False res nomedia show ?thesis
      by (simp add: business_handler_unresolved)
  next
    case (Inr info)
    with assms False res nomedia show ?thesis
      by (auto simp add: business_handler_resolved getBusinessAccountPosts_eq
          split: sum.splits if_splits)
  qed
qed

lemma business_handler_limit_only:
  assumes "param_username r1 = param_username r2"
    and "query_access_token r1 = query_access_token r2"
    and "parseInt_or (query_limit r1) 25 = parseInt_or (query_limit r2) 25"
  shows "business_handler lower up r1 = business_handler lower up r2"
  using assms by (simp add: business_handler_def)

text \<open>The only 400 of the business route is the one for a missing credential.\<close>

lemma business_handler_400:
  assumes "status (fst (business_handler lower up req)) = 400"
  shows "falsy_param (query_access_token req)"
proof (rule ccontr)
  assume nf: "\<not> falsy_param (query_access_token req)"
  obtain r tr where res:
    "getBusinessAccountInfo up (query_text (query_access_token req)) [] = (r, tr)"
    by (cases "getBusinessAccountInfo up (query_text (query_access_token req)) []") auto
  show False
  proof (cases r)
    case (Inl e)
    with res have "business_handler lower up req = (json_response 500 (failure (message e)), tr)"
      using business_handler_unresolved [OF nf] by simp
    with assms show False
      by (simp add: json_response_def)
  next
    case (Inr info)
    with res have "getBusinessAccountInfo up (query_text (query_access_token req)) [] = (Inr info, tr)"
      by simp
    note unfolded = business_handler_resolved [OF nf this]
    from assms show False
      unfolding unfolded
      by (simp add: json_response_def getBusinessAccountPosts_eq split: sum.splits if_splits)
  qed
qed

lemma token_handler_falsy:
  assumes "get_prop (Obj kvs) ''code'' = Inr c" and "get_prop (Obj kvs) ''app_id'' = Inr a"
    and "get_prop (Obj kvs) ''app_secret'' = Inr s"
    and "get_prop (Obj kvs) ''redirect_uri'' = Inr r"
    and "\<not> truthy c \<or> \<not> truthy a \<or> \<not> truthy s \<or> \<not> truthy r"
  shows "token_handler up (Obj kvs) =
           (json_response 400
              (failure ''code, app_id, app_secret, and redirect_uri are required''), [])"
  using assms
  by (simp add: token_handler_def respond_def io_catch_def io_bind_def io_lift_def io_return_def)

lemma business_handler_no_pages:
  assumes "\<not> falsy_param (query_access_token req)"
    and "up (MeAccounts (query_text (query_access_token req))) = Inr d"
    and "get_prop d ''data'' = Inr pages"
    and "pages = Arr [] \<or> \<not> truthy pages"
  shows "business_handler lower up req =
           (json_response 500
              (failure ''Failed to get business account info: No Facebook pages found''),
            [MeAccounts (query_text (query_access_token req))])"
proof -
  from assms(2-4)
  have "getBusinessAccountInfo up (query_text (query_access_token req)) [] =
           (Inl (Error ''Failed to get business account info: No Facebook pages found''),
            [] @ [MeAccounts (query_text (query_access_token req))])"
    by (rule info_no_pages)
  then show ?thesis
    using business_handler_unresolved [OF assms(1)] by simp
qed

text \<open>With no parsed body at all, destructuring throws and the route answers 500.\<close>

lemma token_handler_no_body:
  "token_handler up Undefined =
     (json_response 500 (failure ''Failed to exchange code for token''), [])"
  by (simp add: token_handler_def respond_def io_catch_def io_bind_def io_lift_def io_return_def)

lemma parseInt_undefined: "parseInt ''undefined'' = None"
  by code_simp

lemma parseInt_0: "parseInt ''0'' = Some 0"
  by code_simp

lemma parseInt_25: "parseInt ''25'' = Some 25"
  by code_simp

text \<open>On ASCII strings every engine compares as \<open>ascii_lower\<close> does: two such strings
  have the same lower-cased form exactly when they have the same length and agree,
  position by position, up to the case of their letters.\<close>

lemma lowers_ascii_ascii_lower: "lowers_ascii ascii_lower"
  by (simp add: lowers_ascii_def)

lemma ascii_lower_eq_iff:
  "ascii_lower a = ascii_lower b \<longleftrightarrow>
   list_all2 (\<lambda>x y. ascii_lower_char x = ascii_lower_char y) a b"
  unfolding ascii_lower_def
  by (induction a arbitrary: b) (auto simp add: list_all2_Cons1)

lemma lowers_ascii_eq_iff:
  assumes "lowers_ascii lower" and "is_ascii a" and "is_ascii b"
  shows "lower a = lower b \<longleftrightarrow>
         list_all2 (\<lambda>x y. ascii_lower_char x = ascii_lower_char y) a b"
  using assms by (simp add: lowers_ascii_def ascii_lower_eq_iff)

subsection \<open>The concrete upstream, evaluated\<close>

lemma scenario_resolution:
  "getBusinessAccountInfo scenario_upstream ''tok1'' [] = (Inr scenario_info, scenario_trace)"
  by code_simp

lemma scenario_resolution_req:
  "getBusinessAccountInfo scenario_upstream (query_text (query_access_token (scenario_req name lim))) []
     = (Inr scenario_info, scenario_trace)"
  by (simp add: scenario_req_def query_text_def scenario_resolution)

lemma scenario_token: "\<not> falsy_param (query_access_token (scenario_req name lim))"
  by (simp add: scenario_req_def falsy_param_def)

lemma scenario_username: "get_prop (profile scenario_info) ''username'' = Inr (Str ''acct'')"
  by (simp add: scenario_info_def scenario_profile_def)

section \<open>Resolution\<close>

text \<open>
  C4. When the upstream answers the "list linked pages" call of a credential with an empty
  list, or with no list at all (the \<open>data\<close> property absent or \<open>null\<close>), the resolution
  throws the error "No Facebook pages found" (under the prefix every failure of the
  resolution gets), and the list-pages request is the only request it has sent: neither the
  page's linked account nor the profile is asked for.
\<close>

theorem no_linked_pages:
  assumes "up (MeAccounts tok) = Inr d"
    and "get_prop d ''data'' = Inr pages"
    and "pages = Arr [] \<or> pages = Undefined \<or> pages = Null"
  shows "getBusinessAccountInfo up tok tr =
           (Inl (Error ''Failed to get business account info: No Facebook pages found''),
            tr @ [MeAccounts tok])"
proof -
  from assms(3) have "pages = Arr [] \<or> \<not> truthy pages"
    by auto
  with assms(1,2) show ?thesis
    by (rule info_no_pages)
qed

theorem no_linked_pages_witness:
  "no_pages_upstream (MeAccounts ''tok1'') = Inr (Obj [(''data'', Arr [])]) \<and>
   get_prop (Obj [(''data'', Arr [])]) ''data'' = Inr (Arr []) \<and>
   getBusinessAccountInfo no_pages_upstream ''tok1'' [] =
     (Inl (Error ''Failed to get business account info: No Facebook pages found''),
      [MeAccounts ''tok1''])"
proof -
  have h1: "no_pages_upstream (MeAccounts ''tok1'') = Inr (Obj [(''data'', Arr [])])"
    by (simp add: no_pages_upstream_def)
  have h2: "get_prop (Obj [(''data'', Arr [])]) ''data'' = Inr (Arr [])"
    by simp
  have h3: "Arr [] = Arr [] \<or> Arr [] = Undefined \<or> Arr [] = Null"
    by simp
  from no_linked_pages [of no_pages_upstream "''tok1''" "Obj [(''data'', Arr [])]" "Arr []" "[]"]
    h1 h2 h3 show ?thesis
    by simp
qed

text \<open>
  C5. When the list of linked pages is a list and the resolution succeeds, the list is not
  empty, the page looked up is its first element, and the token read from that page (not
  the credential of the caller) is the token of the profile request, the token returned with
  the account, and the token of the post-listing request the handler then sends.
\<close>

theorem page_token_used:
  assumes "up (MeAccounts tok) = Inr d"
    and "get_prop d ''data'' = Inr (Arr pages)"
    and "getBusinessAccountInfo up tok [] = (Inr info, tr)"
  shows "\<exists>page rest pid pt.
           pages = page # rest \<and>
           get_prop page ''id'' = Inr pid \<and> get_prop page ''access_token'' = Inr pt \<and>
           accessToken info = pt \<and>
           tr = [MeAccounts tok, PageIgAccount pid pt, IgProfile (accountId info) pt] \<and>
           (\<forall>req resolved.
              query_access_token req = Some tok \<and> tok \<noteq> [] \<and>
              get_prop (profile info) ''username'' = Inr (Str resolved) \<and>
              lower resolved = lower (param_username req) \<longrightarrow>
              snd (business_handler lower up req) =
                tr @ [IgMedia (accountId info) pt (parseInt_or (query_limit req) 25)])"
proof -
  from info_success [OF assms(3)] assms(1,2)
  obtain page pid pt ig prof where
    first: "get_index0 (Arr pages) = Inr page" and
    nonempty: "get_prop (Arr pages) ''length'' \<noteq> Inr (Num 0)" and
    pid: "get_prop page ''id'' = Inr pid" and
    pt: "get_prop page ''access_token'' = Inr pt" and
    info: "info = \<lparr>accountId = ig, accessToken = pt, profile = prof\<rparr>" and
    tr: "tr = [] @ [MeAccounts tok, PageIgAccount pid pt, IgProfile ig pt]"
    by auto
  from nonempty first obtain rest where pages: "pages = page # rest"
    by (cases pages) auto
  have handler: "snd (business_handler lower up req) =
      tr @ [IgMedia (accountId info) pt (parseInt_or (query_limit req) 25)]"
    if tok: "query_access_token req = Some tok" "tok \<noteq> []"
      and usr: "get_prop (profile info) ''username'' = Inr (Str resolved)"
      and eq: "lower resolved = lower (param_username req)"
    for req resolved
  proof -
    from tok have nf: "\<not> falsy_param (query_access_token req)"
      by (simp add: falsy_param_def)
    from tok assms(3)
    have res: "getBusinessAccountInfo up (query_text (query_access_token req)) [] = (Inr info, tr)"
      by (simp add: query_text_def)
    from eq show ?thesis
      by (simp add: business_handler_username [OF nf res usr] getBusinessAccountPosts_eq info
          split: sum.splits)
  qed
  from pages pid pt info tr handler show ?thesis
    by auto
qed

theorem page_token_used_witness:
  "scenario_upstream (MeAccounts ''tok1'') =
     Inr (Obj [(''data'', Arr [Obj [(''id'', Str ''p1''), (''access_token'', Str ''pt1'')],
                               Obj [(''id'', Str ''p2''), (''access_token'', Str ''pt2'')]])]) \<and>
   getBusinessAccountInfo scenario_upstream ''tok1'' [] = (Inr scenario_info, scenario_trace) \<and>
   ascii_lower ''acct'' = ascii_lower ''ACCT'' \<and>
   snd (business_handler ascii_lower scenario_upstream (scenario_req ''ACCT'' (Some ''1''))) =
     scenario_trace @ [IgMedia (Str ''ig1'') (Str ''pt1'') 1]"
proof -
  let ?pages = "[Obj [(''id'', Str ''p1''), (''access_token'', Str ''pt1'')],
                 Obj [(''id'', Str ''p2''), (''access_token'', Str ''pt2'')]]"
  have h1: "scenario_upstream (MeAccounts ''tok1'') = Inr (Obj [(''data'', Arr ?pages)])"
    by (simp add: scenario_upstream_def)
  have h2: "get_prop (Obj [(''data'', Arr ?pages)]) ''data'' = Inr (Arr ?pages)"
    by simp
  from page_token_used [where lower = ascii_lower, OF h1 h2 scenario_resolution]
  obtain page rest pt where
    "?pages = page # rest" and "get_prop page ''access_token'' = Inr pt" and
    handler: "\<forall>req resolved.
              query_access_token req = Some ''tok1'' \<and> ''tok1'' \<noteq> [] \<and>
              get_prop (profile scenario_info) ''username'' = Inr (Str resolved) \<and>
              ascii_lower resolved = ascii_lower (param_username req) \<longrightarrow>
              snd (business_handler ascii_lower scenario_upstream req) =
                scenario_trace @
                [IgMedia (accountId scenario_info) pt (parseInt_or (query_limit req) 25)]"
    by blast
  then have pt: "pt = Str ''pt1''"
    by auto
  have lim: "parseInt_or (Some ''1'') 25 = 1"
    by code_simp
  have eq: "ascii_lower ''acct'' = ascii_lower ''ACCT''"
    by code_simp
  from handler [rule_format, of "scenario_req ''ACCT'' (Some ''1'')" "''acct''"] scenario_username eq
  have "snd (business_handler ascii_lower scenario_upstream (scenario_req ''ACCT'' (Some ''1''))) =
     scenario_trace @ [IgMedia (Str ''ig1'') (Str ''pt1'') 1]"
    by (simp add: scenario_req_def pt lim scenario_info_def)
  with h1 scenario_resolution eq show ?thesis
    by (intro conjI)
qed

section \<open>The business route\<close>

text \<open>
  C1. A request to the business route whose credential resolves to an account with a username
  that differs, ignoring case, from the username of the path is answered 404 with
  \<open>success: false\<close>, and the requests sent are those of the resolution: the posts are never
  asked for. Equivalently, the route answers 200 (the only answer that carries posts) only
  when the two usernames are equal ignoring case. Two strings are equal ignoring case when
  their lower-cased forms are equal, the lower-casing being the engine's
  \<open>String.prototype.toLowerCase\<close>: the statement holds for every function \<open>lower\<close> the
  engine may supply. (On ASCII usernames this is equality position by position up to the
  case of letters, by \<open>lowers_ascii_eq_iff\<close>.)
\<close>

theorem username_mismatch_not_found:
  assumes "\<not> falsy_param (query_access_token req)"
    and "getBusinessAccountInfo up (query_text (query_access_token req)) [] = (Inr info, tr)"
    and "get_prop (profile info) ''username'' = Inr (Str resolved)"
  shows "(lower resolved \<noteq> lower (param_username req) \<longrightarrow>
            business_handler lower up req =
              (json_response 404
                 (failure ''Username does not match the authenticated business account''), tr) \<and>
            (\<forall>a t l. IgMedia a t l \<notin> set tr)) \<and>
         (status (fst (business_handler lower up req)) = 200 \<longrightarrow>
            lower resolved = lower (param_username req))"
proof (intro conjI impI allI)
  assume "lower resolved \<noteq> lower (param_username req)"
  then show "business_handler lower up req =
              (json_response 404
                 (failure ''Username does not match the authenticated business account''), tr)"
    by (simp add: business_handler_username [OF assms])
next
  fix a t l
  show "IgMedia a t l \<notin> set tr"
    using info_trace_no_media [OF assms(2)] by auto
next
  assume ok: "status (fst (business_handler lower up req)) = 200"
  show "lower resolved = lower (param_username req)"
  proof (rule ccontr)
    assume "lower resolved \<noteq> lower (param_username req)"
    then have "business_handler lower up req =
              (json_response 404
                 (failure ''Username does not match the authenticated business account''), tr)"
      by (simp add: business_handler_username [OF assms])
    with ok show False
      by (simp add: json_response_def)
  qed
qed

theorem username_mismatch_not_found_witness:
  "ascii_lower ''acct'' \<noteq> ascii_lower ''other'' \<and>
   business_handler ascii_lower scenario_upstream (scenario_req ''other'' None) =
     (json_response 404
        (failure ''Username does not match the authenticated business account''),
      scenario_trace) \<and>
   status (fst (business_handler ascii_lower scenario_upstream (scenario_req ''ACCT'' None))) = 200 \<and>
   ascii_lower ''acct'' = ascii_lower ''ACCT''"
proof -
  have "ascii_lower ''acct'' \<noteq> ascii_lower ''other''"
    by code_simp
  then have differ:
    "ascii_lower ''acct'' \<noteq> ascii_lower (param_username (scenario_req ''other'' None))"
    by (simp add: scenario_req_def)
  have ok: "status (fst (business_handler ascii_lower scenario_upstream
                           (scenario_req ''ACCT'' None))) = 200"
    by code_simp
  note other = username_mismatch_not_found
    [where lower = ascii_lower, OF scenario_token scenario_resolution_req scenario_username,
      of "''other''" None]
  note upper = username_mismatch_not_found
    [where lower = ascii_lower, OF scenario_token scenario_resolution_req scenario_username,
      of "''ACCT''" None]
  from other differ
  have "business_handler ascii_lower scenario_upstream (scenario_req ''other'' None) =
     (json_response 404
        (failure ''Username does not match the authenticated business account''),
      scenario_trace)"
    by blast
  moreover from upper ok
  have "ascii_lower ''acct'' = ascii_lower (param_username (scenario_req ''ACCT'' None))"
    by blast
  ultimately show ?thesis
    using differ ok by (simp add: scenario_req_def)
qed

text \<open>
  C6. When the upstream answers the "list media" request with a list of \<open>N\<close> records, the
  post-fetch operation returns that very list: \<open>N\<close> posts, in the upstream's order, every
  field of every record as the upstream gave it; and the handler puts that list, unchanged,
  under \<open>posts\<close> in its answer. This holds for every \<open>N\<close>, in particular for \<open>N\<close> up to
  the requested limit.
\<close>

theorem posts_passed_through:
  assumes "up (IgMedia account token lim) = Inr d"
    and "get_prop d ''data'' = Inr (Arr media)"
  shows "getBusinessAccountPosts up account token lim tr =
           (Inr (Arr media), tr @ [IgMedia account token lim]) \<and>
         (\<forall>req info resolved tr0.
            \<not> falsy_param (query_access_token req) \<and>
            getBusinessAccountInfo up (query_text (query_access_token req)) [] = (Inr info, tr0) \<and>
            get_prop (profile info) ''username'' = Inr (Str resolved) \<and>
            lower resolved = lower (param_username req) \<and>
            accountId info = account \<and> accessToken info = token \<and>
            parseInt_or (query_limit req) 25 = lim \<longrightarrow>
            business_handler lower up req =
              (json_response 200
                 (Obj [(''success'', Bool True),
                       (''username'', Str resolved),
                       (''account_type'', Str ''business''),
                       (''profile'', profile info),
                       (''posts'', Arr media)]),
               tr0 @ [IgMedia account token lim]))"
proof -
  have fetch: "getBusinessAccountPosts up account token lim tr' =
           (Inr (Arr media), tr' @ [IgMedia account token lim])" for tr'
    using assms by (simp add: getBusinessAccountPosts_eq)
  have "business_handler lower up req =
              (json_response 200
                 (Obj [(''success'', Bool True),
                       (''username'', Str resolved),
                       (''account_type'', Str ''business''),
                       (''profile'', profile info),
                       (''posts'', Arr media)]),
               tr0 @ [IgMedia account token lim])"
    if nf: "\<not> falsy_param (query_access_token req)"
      and res: "getBusinessAccountInfo up (query_text (query_access_token req)) [] = (Inr info, tr0)"
      and usr: "get_prop (profile info) ''username'' = Inr (Str resolved)"
      and eq: "lower resolved = lower (param_username req)"
      and same: "accountId info = account" "accessToken info = token"
        "parseInt_or (query_limit req) 25 = lim"
    for req info resolved tr0
    using eq same by (simp add: business_handler_username [OF nf res usr] fetch)
  with fetch show ?thesis
    by blast
qed

theorem posts_passed_through_witness:
  "scenario_upstream (IgMedia (Str ''ig1'') (Str ''pt1'') 25) =
     Inr (Obj [(''data'', Arr scenario_media)]) \<and>
   length scenario_media = 2 \<and>
   business_handler ascii_lower scenario_upstream (scenario_req ''ACCT'' None) =
     (json_response 200
        (Obj [(''success'', Bool True),
              (''username'', Str ''acct''),
              (''account_type'', Str ''business''),
              (''profile'', scenario_profile),
              (''posts'', Arr scenario_media)]),
      scenario_trace @ [IgMedia (Str ''ig1'') (Str ''pt1'') 25])"
proof -
  have len: "length scenario_media = 2"
    by (simp add: scenario_media_def)
  then have h1: "scenario_upstream (IgMedia (Str ''ig1'') (Str ''pt1'') 25) =
     Inr (Obj [(''data'', Arr scenario_media)])"
    by (simp add: scenario_upstream_def)
  have h2: "get_prop (Obj [(''data'', Arr scenario_media)]) ''data'' = Inr (Arr scenario_media)"
    by simp
  have lim: "parseInt_or (query_limit (scenario_req ''ACCT'' None)) 25 = 25"
    by (simp add: scenario_req_def parseInt_or_def parseInt_query_def query_text_def
        parseInt_undefined)
  have "ascii_lower ''acct'' = ascii_lower ''ACCT''"
    by code_simp
  then have eq: "ascii_lower ''acct'' = ascii_lower (param_username (scenario_req ''ACCT'' None))"
    by (simp add: scenario_req_def)
  have acc: "accountId scenario_info = Str ''ig1''" "accessToken scenario_info = Str ''pt1''"
    by (simp_all add: scenario_info_def)
  note inst = posts_passed_through [where lower = ascii_lower and up = scenario_upstream
      and account = "Str ''ig1''" and token = "Str ''pt1''" and lim = 25
      and d = "Obj [(''data'', Arr scenario_media)]" and media = scenario_media and tr = "[]"]
  from inst h1 h2
  have "\<forall>req info resolved tr0.
            \<not> falsy_param (query_access_token req) \<and>
            getBusinessAccountInfo scenario_upstream (query_text (query_access_token req)) [] =
              (Inr info, tr0) \<and>
            get_prop (profile info) ''username'' = Inr (Str resolved) \<and>
            ascii_lower resolved = ascii_lower (param_username req) \<and>
            accountId info = Str ''ig1'' \<and> accessToken info = Str ''pt1'' \<and>
            parseInt_or (query_limit req) 25 = 25 \<longrightarrow>
            business_handler ascii_lower scenario_upstream req =
              (json_response 200
                 (Obj [(''success'', Bool True),
                       (''username'', Str resolved),
                       (''account_type'', Str ''business''),
                       (''profile'', profile info),
                       (''posts'', Arr scenario_media)]),
               tr0 @ [IgMedia (Str ''ig1'') (Str ''pt1'') 25])"
    by blast
  from this [rule_format, of "scenario_req ''ACCT'' None" scenario_info scenario_trace "''acct''"]
    scenario_token scenario_resolution_req scenario_username eq acc lim
  have "business_handler ascii_lower scenario_upstream (scenario_req ''ACCT'' None) =
     (json_response 200
        (Obj [(''success'', Bool True),
              (''username'', Str ''acct''),
              (''account_type'', Str ''business''),
              (''profile'', profile scenario_info),
              (''posts'', Arr scenario_media)]),
      scenario_trace @ [IgMedia (Str ''ig1'') (Str ''pt1'') 25])"
    by blast
  with h1 len show ?thesis
    by (simp add: scenario_info_def)
qed

text \<open>
  C9. When the \<open>limit\<close> query parameter of a request to the business route is absent, is not
  numeric (\<open>parseInt\<close> finds no digit: \<open>NaN\<close>), or is the string \<open>0\<close>, the limit sent
  upstream is the default 25: the handler does exactly what it does for \<open>limit=25\<close>, and
  every post-listing request it sends carries the limit 25.
\<close>

theorem limit_defaults_to_25:
  assumes "query_limit req = None \<or> (\<exists>s. query_limit req = Some s \<and> parseInt s = None) \<or>
           query_limit req = Some ''0''"
  shows "business_handler lower up req = business_handler lower up (req\<lparr>query_limit := Some ''25''\<rparr>) \<and>
         (\<forall>a t l. IgMedia a t l \<in> set (snd (business_handler lower up req)) \<longrightarrow> l = 25)"
proof -
  from assms have lim: "parseInt_or (query_limit req) 25 = 25"
    by (auto simp add: parseInt_or_def parseInt_query_def query_text_def parseInt_undefined
        parseInt_0)
  have "parseInt_or (Some ''25'') 25 = 25"
    by (simp add: parseInt_or_def parseInt_query_def query_text_def parseInt_25)
  with lim have "business_handler lower up req = business_handler lower up (req\<lparr>query_limit := Some ''25''\<rparr>)"
    by (intro business_handler_limit_only) simp_all
  moreover have "\<forall>a t l. IgMedia a t l \<in> set (snd (business_handler lower up req)) \<longrightarrow> l = 25"
    using business_handler_media [of _ _ _ lower up req] lim by auto
  ultimately show ?thesis by simp
qed

theorem limit_defaults_to_25_witness:
  "query_limit (scenario_req ''acct'' (Some ''abc'')) = Some ''abc'' \<and> parseInt ''abc'' = None \<and>
   snd (business_handler ascii_lower scenario_upstream (scenario_req ''acct'' (Some ''abc''))) =
     scenario_trace @ [IgMedia (Str ''ig1'') (Str ''pt1'') 25]"
proof -
  let ?req = "scenario_req ''acct'' (Some ''abc'')"
  have h1: "query_limit ?req = Some ''abc''"
    by (simp add: scenario_req_def)
  have h2: "parseInt ''abc'' = None"
    by code_simp
  from h1 h2 have hyp: "query_limit ?req = None \<or>
      (\<exists>s. query_limit ?req = Some s \<and> parseInt s = None) \<or>
      query_limit ?req = Some ''0''"
    by simp
  have same: "business_handler ascii_lower scenario_upstream ?req =
              business_handler ascii_lower scenario_upstream (?req\<lparr>query_limit := Some ''25''\<rparr>)"
    using limit_defaults_to_25 [where lower = ascii_lower and up = scenario_upstream, OF hyp] by (rule conjunct1)
  have upd: "?req\<lparr>query_limit := Some ''25''\<rparr> = scenario_req ''acct'' (Some ''25'')"
    by (simp add: scenario_req_def)
  have ev: "snd (business_handler ascii_lower scenario_upstream (scenario_req ''acct'' (Some ''25''))) =
     scenario_trace @ [IgMedia (Str ''ig1'') (Str ''pt1'') 25]"
    by code_simp
  have "snd (business_handler ascii_lower scenario_upstream ?req) =
     scenario_trace @ [IgMedia (Str ''ig1'') (Str ''pt1'') 25]"
    unfolding same upd by (rule ev)
  with h1 h2 show ?thesis
    by (intro conjI)
qed

text \<open>
  C3, as stated, fails: the business route has no check of the limit. The supplied limit
  \<open>0\<close> lies outside \<open>[1, 100]\<close>, and the request is answered 200 after four upstream
  requests; the handler has replaced the \<open>0\<close> by its default 25. The request is evaluated
  with \<open>ascii_lower\<close> in the place of the engine's lower-casing; the path username is the
  resolved one, so the answer is the same for every engine, as the lemma that follows shows.
\<close>

theorem limit_zero_not_rejected:
  "parseInt_query (Some ''0'') = Some 0 \<and>
   status (fst (business_handler ascii_lower scenario_upstream (scenario_req ''acct'' (Some ''0'')))) = 200 \<and>
   snd (business_handler ascii_lower scenario_upstream (scenario_req ''acct'' (Some ''0''))) =
     scenario_trace @ [IgMedia (Str ''ig1'') (Str ''pt1'') 25]"
  by code_simp

lemma limit_zero_not_rejected_any_engine:
  "status (fst (business_handler lower scenario_upstream (scenario_req ''acct'' (Some ''0'')))) = 200 \<and>
   snd (business_handler lower scenario_upstream (scenario_req ''acct'' (Some ''0''))) =
     scenario_trace @ [IgMedia (Str ''ig1'') (Str ''pt1'') 25]"
proof -
  have lim: "parseInt_or (query_limit (scenario_req ''acct'' (Some ''0''))) 25 = 25"
    by code_simp
  have up: "scenario_upstream (IgMedia (Str ''ig1'') (Str ''pt1'') 25) =
      Inr (Obj [(''data'', Arr scenario_media)])"
    by (simp add: scenario_upstream_def scenario_media_def)
  have same: "lower ''acct'' = lower (param_username (scenario_req ''acct'' (Some ''0'')))"
    by (simp add: scenario_req_def)
  show ?thesis
    using same
    by (simp add: business_handler_username
        [OF scenario_token scenario_resolution_req scenario_username]
        getBusinessAccountPosts_eq lim up scenario_info_def json_response_def)
qed

text \<open>
  C3, amended. For a supplied limit that \<open>parseInt\<close> reads as an integer from 0 to 100, or
  does not read as a number at all, the limit the business route sends upstream is
  \<open>parseInt(limit) || 25\<close> and lies in \<open>[1, 100]\<close>: the integer itself when it is at least
  1, the default 25 otherwise. Such a request is not rejected for its limit: the route
  answers 400 only when the access token is missing.
\<close>

theorem limit_in_range_forwarded:
  assumes "parseInt_query (query_limit req) = None \<or>
           (\<exists>n. parseInt_query (query_limit req) = Some n \<and> 0 \<le> n \<and> n \<le> 100)"
  shows "(\<forall>a t l. IgMedia a t l \<in> set (snd (business_handler lower up req)) \<longrightarrow>
            l = parseInt_or (query_limit req) 25 \<and> 1 \<le> l \<and> l \<le> 100) \<and>
         (status (fst (business_handler lower up req)) = 400 \<longrightarrow>
            falsy_param (query_access_token req))"
proof -
  from assms have "1 \<le> parseInt_or (query_limit req) 25 \<and> parseInt_or (query_limit req) 25 \<le> 100"
    by (auto simp add: parseInt_or_def)
  then show ?thesis
    using business_handler_media [of _ _ _ lower up req] business_handler_400 [of lower up req]
    by auto
qed

theorem limit_in_range_forwarded_witness:
  "parseInt_query (query_limit (scenario_req ''acct'' (Some ''0''))) = Some 0 \<and>
   IgMedia (Str ''ig1'') (Str ''pt1'') 25 \<in>
     set (snd (business_handler ascii_lower scenario_upstream (scenario_req ''acct'' (Some ''0'')))) \<and>
   (25::int) = parseInt_or (query_limit (scenario_req ''acct'' (Some ''0''))) 25 \<and>
   parseInt_query (query_limit (scenario_req ''acct'' (Some ''7''))) = Some 7 \<and>
   IgMedia (Str ''ig1'') (Str ''pt1'') 7 \<in>
     set (snd (business_handler ascii_lower scenario_upstream (scenario_req ''acct'' (Some ''7''))))"
proof -
  let ?zero = "scenario_req ''acct'' (Some ''0'')"
  let ?seven = "scenario_req ''acct'' (Some ''7'')"
  have p0: "parseInt_query (query_limit ?zero) = Some 0"
    by code_simp
  have p7: "parseInt_query (query_limit ?seven) = Some 7"
    by code_simp
  have m0: "IgMedia (Str ''ig1'') (Str ''pt1'') 25 \<in> set (snd (business_handler ascii_lower scenario_upstream ?zero))"
    by code_simp
  have m7: "IgMedia (Str ''ig1'') (Str ''pt1'') 7 \<in> set (snd (business_handler ascii_lower scenario_upstream ?seven))"
    by code_simp
  from p0 have hyp: "parseInt_query (query_limit ?zero) = None \<or>
           (\<exists>n. parseInt_query (query_limit ?zero) = Some n \<and> 0 \<le> n \<and> n \<le> 100)"
    by simp
  from limit_in_range_forwarded [where lower = ascii_lower and up = scenario_upstream, OF hyp] m0
  have "(25::int) = parseInt_or (query_limit ?zero) 25"
    by blast
  with p0 p7 m0 m7 show ?thesis
    by (intro conjI)
qed

text \<open>For the record, a limit above 100 is forwarded as it is.\<close>

lemma limit_500_forwarded:
  "status (fst (business_handler ascii_lower scenario_upstream (scenario_req ''acct'' (Some ''500'')))) = 200 \<and>
   snd (business_handler ascii_lower scenario_upstream (scenario_req ''acct'' (Some ''500''))) =
     scenario_trace @ [IgMedia (Str ''ig1'') (Str ''pt1'') 500]"
  by code_simp

section \<open>Validation of the username\<close>

text \<open>
  C2, as stated, fails for the business route, which has no check of the username's shape:
  the username \<open>bad name!\<close> does not match the pattern, and the handler still runs the
  resolution (three upstream requests) before it answers, by the username gate, 404. The
  request is evaluated with \<open>ascii_lower\<close> in the place of the engine's lower-casing, which
  it is on these ASCII usernames; the lemma that follows gives the same answer for every
  engine.
\<close>

theorem business_route_no_username_validation:
  "\<not> username_regex_test ''bad name!'' \<and>
   business_handler ascii_lower scenario_upstream (scenario_req ''bad name!'' None) =
     (json_response 404
        (failure ''Username does not match the authenticated business account''),
      [MeAccounts ''tok1'', PageIgAccount (Str ''p1'') (Str ''pt1''),
       IgProfile (Str ''ig1'') (Str ''pt1'')])"
  by code_simp

lemma no_username_validation_any_engine:
  assumes "lowers_ascii lower"
  shows "business_handler lower scenario_upstream (scenario_req ''bad name!'' None) =
     (json_response 404
        (failure ''Username does not match the authenticated business account''),
      scenario_trace)"
proof -
  have "is_ascii ''acct''" and "is_ascii ''bad name!''"
    by code_simp+
  with assms have "lower ''acct'' = ascii_lower ''acct''"
    and "lower ''bad name!'' = ascii_lower ''bad name!''"
    by (simp_all add: lowers_ascii_def)
  moreover have "ascii_lower ''acct'' \<noteq> ascii_lower ''bad name!''"
    by code_simp
  ultimately have "lower ''acct'' \<noteq> lower (param_username (scenario_req ''bad name!'' None))"
    by (simp add: scenario_req_def)
  then show ?thesis
    by (simp add: business_handler_username
        [OF scenario_token scenario_resolution_req scenario_username])
qed

text \<open>
  C2, amended. The handler that holds the validator is the one of
  \<open>GET /api/instagram/:username\<close>: for every username that does not match
  \<open>^[A-Za-z0-9._]{1,30}$\<close> it answers 400 "Invalid username format" and the data source is
  never called.
\<close>

theorem mock_route_validates_username:
  assumes "\<not> username_regex_test (mock_username req)"
  shows "instagram_handler lower req = (json_response 400 (failure ''Invalid username format''), [])"
  using assms
  by (simp add: instagram_handler_def Let_def respond_def io_catch_def io_return_def)

theorem mock_route_validates_username_witness:
  "\<not> username_regex_test ''bad name!'' \<and>
   instagram_handler ascii_lower \<lparr>mock_username = ''bad name!'', mock_limit = None\<rparr> =
     (json_response 400 (failure ''Invalid username format''), [])"
proof -
  have h: "\<not> username_regex_test (mock_username \<lparr>mock_username = ''bad name!'', mock_limit = None\<rparr>)"
    by code_simp
  then have "\<not> username_regex_test ''bad name!''"
    by simp
  with mock_route_validates_username [where lower = ascii_lower, OF h] show ?thesis
    by (intro conjI)
qed

section \<open>The OAuth routes\<close>

text \<open>
  C7. A token-exchange request whose JSON body lacks any of the four fields \<open>code\<close>,
  \<open>app_id\<close>, \<open>app_secret\<close>, \<open>redirect_uri\<close> is answered 400 with \<open>success: false\<close>, and no
  outbound request is sent.
\<close>

theorem token_exchange_missing_field:
  assumes "f \<in> set [''code'', ''app_id'', ''app_secret'', ''redirect_uri'']"
    and "map_of kvs f = None"
  shows "token_handler up (Obj kvs) =
           (json_response 400
              (failure ''code, app_id, app_secret, and redirect_uri are required''), [])"
proof -
  obtain c a s r where props:
    "get_prop (Obj kvs) ''code'' = Inr c" "get_prop (Obj kvs) ''app_id'' = Inr a"
    "get_prop (Obj kvs) ''app_secret'' = Inr s" "get_prop (Obj kvs) ''redirect_uri'' = Inr r"
    by simp
  from assms have "get_prop (Obj kvs) f = Inr Undefined"
    by simp
  with assms(1) props have "\<not> truthy c \<or> \<not> truthy a \<or> \<not> truthy s \<or> \<not> truthy r"
    by auto
  with props show ?thesis
    by (rule token_handler_falsy)
qed

theorem token_exchange_missing_field_witness:
  "map_of [(''app_id'', Str ''1''), (''app_secret'', Str ''s''),
           (''redirect_uri'', Str ''https://example.com/cb'')] ''code'' = None \<and>
   token_handler scenario_upstream
     (Obj [(''app_id'', Str ''1''), (''app_secret'', Str ''s''),
           (''redirect_uri'', Str ''https://example.com/cb'')]) =
     (json_response 400
        (failure ''code, app_id, app_secret, and redirect_uri are required''), [])"
proof -
  let ?fields = "[(''app_id'', Str ''1''), (''app_secret'', Str ''s''),
           (''redirect_uri'', Str ''https://example.com/cb'')]"
  have h1: "''code'' \<in> set [''code'', ''app_id'', ''app_secret'', ''redirect_uri'']"
    by simp
  have h2: "map_of ?fields ''code'' = None"
    by simp
  from token_exchange_missing_field [OF h1 h2, of scenario_upstream] h2 show ?thesis
    by (intro conjI)
qed

text \<open>
  C8. With \<open>app_id\<close> and \<open>redirect_uri\<close> both present (and not empty, which the handler
  treats as missing), \<open>GET /api/auth/instagram\<close> answers 200 and its \<open>auth_url\<close> is exactly
  \<open>https://www.facebook.com/v18.0/dialog/oauth?client_id={app_id}&redirect_uri=\<close>
  \<open>{encodeURIComponent(redirect_uri)}&scope=instagram_basic,pages_show_list,\<close>
  \<open>pages_read_engagement&response_type=code\<close>; if either parameter is missing the answer is
  400.
\<close>

theorem auth_url_built:
  "(a \<noteq> [] \<and> r \<noteq> [] \<longrightarrow>
      auth_handler (Some a) (Some r) =
        json_response 200
          (Obj [(''success'', Bool True),
                (''auth_url'',
                 Str (''https://www.facebook.com/v18.0/dialog/oauth?client_id='' @ a @
                      ''&redirect_uri='' @ encodeURIComponent r @
                      ''&scope=instagram_basic,pages_show_list,pages_read_engagement&response_type=code'')),
                (''instructions'',
                 Arr [Str ''1. Visit the auth_url to authorize your app'',
                      Str ''2. Copy the authorization code from the redirect'',
                      Str ''3. Exchange the code for an access token using /api/auth/token''])])) \<and>
   (falsy_param app_id \<or> falsy_param redirect_uri \<longrightarrow>
      auth_handler app_id redirect_uri =
        json_response 400 (failure ''app_id and redirect_uri are required''))"
  by (simp add: auth_handler_def falsy_param_def query_text_def auth_url_def)

theorem auth_url_built_witness:
  "auth_handler (Some ''123'') (Some ''https://example.com/cb?x=1&y=a b'') =
     json_response 200
       (Obj [(''success'', Bool True),
             (''auth_url'',
              Str ''https://www.facebook.com/v18.0/dialog/oauth?client_id=123&redirect_uri=https%3A%2F%2Fexample.com%2Fcb%3Fx%3D1%26y%3Da%20b&scope=instagram_basic,pages_show_list,pages_read_engagement&response_type=code''),
             (''instructions'',
              Arr [Str ''1. Visit the auth_url to authorize your app'',
                   Str ''2. Copy the authorization code from the redirect'',
                   Str ''3. Exchange the code for an access token using /api/auth/token''])]) \<and>
   falsy_param None \<and>
   auth_handler None (Some ''https://example.com/cb'') =
     json_response 400 (failure ''app_id and redirect_uri are required'')"
proof -
  have enc: "encodeURIComponent ''https://example.com/cb?x=1&y=a b'' =
             ''https%3A%2F%2Fexample.com%2Fcb%3Fx%3D1%26y%3Da%20b''"
    by code_simp
  have ne: "''123'' \<noteq> [] \<and> ''https://example.com/cb?x=1&y=a b'' \<noteq> []"
    by simp
  have missing: "falsy_param None"
    by (simp add: falsy_param_def)
  note ok = auth_url_built [of "''123''" "''https://example.com/cb?x=1&y=a b''" None None,
      THEN conjunct1, rule_format, OF ne]
  note bad = auth_url_built [of "''x''" "''y''" None "Some ''https://example.com/cb''",
      THEN conjunct2, rule_format, OF disjI1, OF missing]
  from ok enc bad missing show ?thesis
    by simp
qed

section \<open>The public route\<close>

text \<open>
  C10. Whatever the username and the limit, \<open>GET /api/instagram/public/{username}\<close> answers
  501 with \<open>success: false\<close> and an error text, and sends no request: the handler never
  reaches the scraper.
\<close>

theorem public_route_disabled:
  "snd (public_handler up req) = [] \<and>
   status (fst (public_handler up req)) = 501 \<and>
   get_prop (body (fst (public_handler up req))) ''success'' = Inr (Bool False) \<and>
   get_prop (body (fst (public_handler up req))) ''error'' =
     Inr (Str ''Public profile scraping is no longer reliable due to Instagram's restrictions'')"
  by (simp add: public_handler_def Let_def respond_def io_catch_def io_return_def
      json_response_def)

end
